theory Spec2Isabelle
  imports Main "HOL-Library.Char_ord" "HOL-Library.List_Lexorder"
begin

section \<open>Python values held by the tracker\<close>

text \<open>
  The fields of an \<open>Expense\<close> object are untyped Python attributes. \<open>add_expenses\<close> and
  \<open>edit_expense\<close> store a float and two \<open>str\<close>, but \<open>Expense.from_dict\<close> stores whatever
  \<open>json.load\<close> produced, so a field is any JSON-shaped Python value.

  Numbers (Python \<open>int\<close> and \<open>float\<close>) are kept abstract in the type parameter \<open>'n\<close>, with
  \<open>0\<close>, \<open>1\<close> and \<open>+\<close> only and no algebraic law assumed of them: IEEE addition is neither
  associative nor exact.

  A \<open>string\<close> stands for a Python \<open>str\<close> whose code points are below 256; on that range the
  regular-expression class \<open>\d\<close> is exactly \<open>0\<close>..\<open>9\<close>.
\<close>

datatype 'n pyval =
    PNone
  | PBool bool
  | PNum 'n
  | PStr string
  | PList "'n pyval list"
  | PDict "(string \<times> 'n pyval) list"

text \<open>Exceptions that no handler of the program catches.\<close>

datatype exn = KeyError string | TypeError | AttributeError | ValueError

text \<open>\<open>d[k]\<close> for a \<open>str\<close> key \<open>k\<close>: only a dict can be subscripted by a string.\<close>

fun getitem :: "'n pyval \<Rightarrow> string \<Rightarrow> exn + 'n pyval" where
  "getitem (PDict kvs) k = (case map_of kvs k of None \<Rightarrow> Inl (KeyError k) | Some v \<Rightarrow> Inr v)"
| "getitem _ k = Inl TypeError"

text \<open>\<open>for item in data\<close>: lists yield their elements, dicts their keys, strings their
  characters; the other values are not iterable.\<close>

fun py_iter :: "'n pyval \<Rightarrow> exn + 'n pyval list" where
  "py_iter (PList xs) = Inr xs"
| "py_iter (PDict kvs) = Inr (map (\<lambda>kv. PStr (fst kv)) kvs)"
| "py_iter (PStr s) = Inr (map (\<lambda>c. PStr [c]) s)"
| "py_iter _ = Inl TypeError"

text \<open>\<open>acc + v\<close> for a numeric accumulator: \<open>bool\<close> is a subclass of \<open>int\<close>.\<close>

fun py_add :: "'n::{zero,one,plus} \<Rightarrow> 'n pyval \<Rightarrow> exn + 'n" where
  "py_add acc (PNum a) = Inr (acc + a)"
| "py_add acc (PBool b) = Inr (acc + (if b then 1 else 0))"
| "py_add acc _ = Inl TypeError"

text \<open>Equality of hashable values as dict keys: \<open>True == 1\<close> and \<open>False == 0\<close>.\<close>

fun num_of_key :: "'n::{zero,one} pyval \<Rightarrow> 'n option" where
  "num_of_key (PNum a) = Some a"
| "num_of_key (PBool b) = Some (if b then 1 else 0)"
| "num_of_key _ = None"

fun py_eq :: "'n::{zero,one} pyval \<Rightarrow> 'n pyval \<Rightarrow> bool" where
  "py_eq PNone PNone = True"
| "py_eq (PStr s) (PStr t) = (s = t)"
| "py_eq a b = (case (num_of_key a, num_of_key b) of (Some x, Some y) \<Rightarrow> x = y | _ \<Rightarrow> False)"

fun hashable :: "'n pyval \<Rightarrow> bool" where
  "hashable (PList _) = False"
| "hashable (PDict _) = False"
| "hashable _ = True"

section \<open>Strings\<close>

definition is_digit :: "char \<Rightarrow> bool" where
  "is_digit c \<longleftrightarrow> CHR ''0'' \<le> c \<and> c \<le> CHR ''9''"

definition digit_val :: "char \<Rightarrow> int" where
  "digit_val c = int (of_char c) - 48"

definition digit_char :: "nat \<Rightarrow> char" where
  "digit_char n = char_of (48 + n)"

text \<open>\<open>str.isspace\<close> on code points below 256.\<close>

definition py_isspace :: "char \<Rightarrow> bool" where
  "py_isspace c \<longleftrightarrow> (of_char c :: nat) \<in> {9, 10, 11, 12, 13, 28, 29, 30, 31, 32, 133, 160}"

definition strip :: "string \<Rightarrow> string" where
  "strip s = rev (dropWhile py_isspace (rev (dropWhile py_isspace s)))"

text \<open>\<open>str.lower\<close> on code points below 256: \<open>A\<close>..\<open>Z\<close> and the Latin-1 capitals.\<close>

definition lower_char :: "char \<Rightarrow> char" where
  "lower_char c =
     (let n = (of_char c :: nat)
      in if (65 \<le> n \<and> n \<le> 90) \<or> (192 \<le> n \<and> n \<le> 222 \<and> n \<noteq> 215) then char_of (n + 32) else c)"

definition lower :: "string \<Rightarrow> string" where
  "lower s = map lower_char s"

fun py_lower :: "'n pyval \<Rightarrow> exn + string" where
  "py_lower (PStr s) = Inr (lower s)"
| "py_lower _ = Inl AttributeError"

text \<open>\<open>str(n)\<close> of a natural number: decimal, no padding.\<close>

fun str_nat :: "nat \<Rightarrow> string" where
  "str_nat n = (if n < 10 then [digit_char n] else str_nat (n div 10) @ [digit_char (n mod 10)])"

definition str_int :: "int \<Rightarrow> string" where
  "str_int i = (if i < 0 then CHR ''-'' # str_nat (nat (- i)) else str_nat (nat i))"

text \<open>The zero-padded fields of \<open>strftime\<close>: \<open>%m\<close> and \<open>%d\<close> have two digits.\<close>

definition digits2 :: "int \<Rightarrow> string" where
  "digits2 i = [digit_char (nat i div 10 mod 10), digit_char (nat i mod 10)]"

section \<open>Dates: \<open>datetime.strptime(s, "%Y-%m-%d")\<close>\<close>

text \<open>
  \<open>strptime\<close> turns the format into the regular expression
  \<^verbatim>\<open>(?P<Y>\d\d\d\d)-(?P<m>1[0-2]|0[1-9]|[1-9])-(?P<d>3[0-1]|[1-2]\d|0[1-9]|[1-9]| [1-9])\<close>,
  matches it at the start of the text, rejects the text when the match leaves characters
  over, and hands the three numbers to the \<open>datetime\<close> constructor, which rejects a year
  outside 1..9999, a month outside 1..12 and a day the month does not have. Every
  rejection is a \<open>ValueError\<close>.

  A partial match is a list of (value, rest of the text) in the order in which the
  backtracking matcher tries the alternatives.
\<close>

type_synonym 'a rematch = "('a \<times> string) list"

definition in_range :: "char \<Rightarrow> char \<Rightarrow> char \<Rightarrow> bool" where
  "in_range lo hi c \<longleftrightarrow> lo \<le> c \<and> c \<le> hi"

fun re_two :: "(char \<Rightarrow> bool) \<Rightarrow> (char \<Rightarrow> bool) \<Rightarrow> string \<Rightarrow> int rematch" where
  "re_two p q (a # b # r) = (if p a \<and> q b then [(10 * digit_val a + digit_val b, r)] else [])"
| "re_two p q _ = []"

fun re_one :: "(char \<Rightarrow> bool) \<Rightarrow> string \<Rightarrow> int rematch" where
  "re_one p (a # r) = (if p a then [(digit_val a, r)] else [])"
| "re_one p [] = []"

fun re_lit :: "char \<Rightarrow> string \<Rightarrow> string list" where
  "re_lit c (a # r) = (if a = c then [r] else [])"
| "re_lit c [] = []"

fun re_Y :: "string \<Rightarrow> int rematch" where
  "re_Y (a # b # c # d # r) =
     (if is_digit a \<and> is_digit b \<and> is_digit c \<and> is_digit d
      then [(1000 * digit_val a + 100 * digit_val b + 10 * digit_val c + digit_val d, r)]
      else [])"
| "re_Y _ = []"

definition re_m :: "string \<Rightarrow> int rematch" where
  "re_m s =
     re_two (\<lambda>c. c = CHR ''1'') (in_range CHR ''0'' CHR ''2'') s
     @ re_two (\<lambda>c. c = CHR ''0'') (in_range CHR ''1'' CHR ''9'') s
     @ re_one (in_range CHR ''1'' CHR ''9'') s"

text \<open>The last alternative of the day is a space and a digit; \<open>int(" 5")\<close> is 5.\<close>

definition re_d :: "string \<Rightarrow> int rematch" where
  "re_d s =
     re_two (\<lambda>c. c = CHR ''3'') (in_range CHR ''0'' CHR ''1'') s
     @ re_two (in_range CHR ''1'' CHR ''2'') is_digit s
     @ re_two (\<lambda>c. c = CHR ''0'') (in_range CHR ''1'' CHR ''9'') s
     @ re_one (in_range CHR ''1'' CHR ''9'') s
     @ (case s of a # r \<Rightarrow> if a = CHR '' '' then re_one (in_range CHR ''1'' CHR ''9'') r else []
        | [] \<Rightarrow> [])"

definition re_date :: "string \<Rightarrow> (int \<times> int \<times> int) rematch" where
  "re_date s =
     concat (map (\<lambda>(y, r1).
       concat (map (\<lambda>r2.
         concat (map (\<lambda>(m, r3).
           concat (map (\<lambda>r4.
             map (\<lambda>(d, r5). ((y, m, d), r5)) (re_d r4))
           (re_lit CHR ''-'' r3)))
         (re_m r2)))
       (re_lit CHR ''-'' r1)))
     (re_Y s))"

definition is_leap :: "int \<Rightarrow> bool" where
  "is_leap y \<longleftrightarrow> y mod 4 = 0 \<and> (y mod 100 \<noteq> 0 \<or> y mod 400 = 0)"

definition days_in_month :: "int \<Rightarrow> int \<Rightarrow> int" where
  "days_in_month y m =
     (if m = 2 then (if is_leap y then 29 else 28)
      else if m = 4 \<or> m = 6 \<or> m = 9 \<or> m = 11 then 30 else 31)"

text \<open>The checks of the \<open>datetime\<close> constructor.\<close>

definition check_date_fields :: "int \<Rightarrow> int \<Rightarrow> int \<Rightarrow> bool" where
  "check_date_fields y m d \<longleftrightarrow>
     1 \<le> y \<and> y \<le> 9999 \<and> 1 \<le> m \<and> m \<le> 12 \<and> 1 \<le> d \<and> d \<le> days_in_month y m"

text \<open>\<open>None\<close> is the \<open>ValueError\<close>; \<open>re.match\<close> returns the first match found.\<close>

definition strptime :: "string \<Rightarrow> (int \<times> int \<times> int) option" where
  "strptime s =
     (case re_date s of
        [] \<Rightarrow> None
      | ((y, m, d), rest) # _ \<Rightarrow>
          if rest \<noteq> [] then None
          else if check_date_fields y m d then Some (y, m, d)
          else None)"

text \<open>\<open>validate_date\<close> catches \<open>ValueError\<close> only; a non-\<open>str\<close> argument makes \<open>strptime\<close>
  raise \<open>TypeError\<close>, which escapes.\<close>

fun validate_date :: "'n pyval \<Rightarrow> exn + bool" where
  "validate_date (PStr s) = Inr (strptime s \<noteq> None)"
| "validate_date _ = Inl TypeError"

text \<open>The proleptic Gregorian ordinal of \<open>datetime\<close>: 1 is 0001-01-01, a Monday.\<close>

definition days_before_year :: "int \<Rightarrow> int" where
  "days_before_year y = (y - 1) * 365 + (y - 1) div 4 - (y - 1) div 100 + (y - 1) div 400"

definition days_before_month :: "int \<Rightarrow> int \<Rightarrow> int" where
  "days_before_month y m =
     [0, 31, 59, 90, 120, 151, 181, 212, 243, 273, 304, 334] ! nat (m - 1)
     + (if m > 2 \<and> is_leap y then 1 else 0)"

definition ymd2ord :: "int \<Rightarrow> int \<Rightarrow> int \<Rightarrow> int" where
  "ymd2ord y m d = days_before_year y + days_before_month y m + d"

definition isoweek1monday :: "int \<Rightarrow> int" where
  "isoweek1monday y =
     (let firstday = ymd2ord y 1 1;
          firstweekday = (firstday + 6) mod 7;
          week1monday = firstday - firstweekday
      in if firstweekday > 3 then week1monday + 7 else week1monday)"

text \<open>\<open>date.isocalendar()\<close>: (ISO year, ISO week, ISO weekday).\<close>

definition isocalendar :: "int \<Rightarrow> int \<Rightarrow> int \<Rightarrow> int \<times> int \<times> int" where
  "isocalendar y m d =
     (let week1monday = isoweek1monday y;
          today = ymd2ord y m d;
          week = (today - week1monday) div 7;
          day = (today - week1monday) mod 7
      in if week < 0 then
           (let week1monday' = isoweek1monday (y - 1)
            in (y - 1, (today - week1monday') div 7 + 1, (today - week1monday') mod 7 + 1))
         else if week \<ge> 52 \<and> today \<ge> isoweek1monday (y + 1) then (y + 1, 1, day + 1)
         else (y, week + 1, day + 1))"

text \<open>\<open>date_obj.strftime("%Y-%m")\<close> and \<open>strftime("%Y-%m-%d")\<close>. The library hands \<open>%Y\<close> to
  the C library, which on Linux writes the year in decimal without padding: the date
  parsed from \<open>0999-01-01\<close> is formatted as \<open>999-01\<close>.\<close>

definition strftime_Ym :: "int \<times> int \<times> int \<Rightarrow> string" where
  "strftime_Ym dt = (case dt of (y, m, d) \<Rightarrow> str_int y @ ''-'' @ digits2 m)"

definition strftime_Ymd :: "int \<times> int \<times> int \<Rightarrow> string" where
  "strftime_Ymd dt = (case dt of (y, m, d) \<Rightarrow> str_int y @ ''-'' @ digits2 m @ ''-'' @ digits2 d)"

section \<open>Dictionaries with insertion order\<close>

text \<open>A \<open>defaultdict(float)\<close> is a list of (key, value) in insertion order; \<open>eq\<close> is the
  equality of its keys.\<close>

fun dict_get :: "('k \<Rightarrow> 'k \<Rightarrow> bool) \<Rightarrow> ('k \<times> 'v) list \<Rightarrow> 'k \<Rightarrow> 'v option" where
  "dict_get eq [] k = None"
| "dict_get eq ((k', v) # kvs) k = (if eq k' k then Some v else dict_get eq kvs k)"

fun dict_set :: "('k \<Rightarrow> 'k \<Rightarrow> bool) \<Rightarrow> 'k \<Rightarrow> 'v \<Rightarrow> ('k \<times> 'v) list \<Rightarrow> ('k \<times> 'v) list" where
  "dict_set eq k v [] = [(k, v)]"
| "dict_set eq k v ((k', v') # kvs) =
     (if eq k' k then (k', v) # kvs else (k', v') # dict_set eq k v kvs)"

text \<open>\<open>d[key] += amount\<close> on a \<open>defaultdict(float)\<close>: a missing key reads as \<open>0.0\<close>.\<close>

definition dict_add ::
  "('k \<Rightarrow> 'k \<Rightarrow> bool) \<Rightarrow> ('k \<times> 'n) list \<Rightarrow> 'k \<Rightarrow> 'n::{zero,one,plus} pyval \<Rightarrow> exn + ('k \<times> 'n) list" where
  "dict_add eq d k a =
     (case py_add (case dict_get eq d k of None \<Rightarrow> 0 | Some v \<Rightarrow> v) a of
        Inl x \<Rightarrow> Inl x
      | Inr v \<Rightarrow> Inr (dict_set eq k v d))"

section \<open>The \<open>Expense\<close> class\<close>

record 'n expense =
  amount :: "'n pyval"
  category :: "'n pyval"
  date :: "'n pyval"

definition to_dict :: "'n expense \<Rightarrow> 'n pyval" where
  "to_dict e = PDict [(''amount'', amount e), (''category'', category e), (''date'', date e)]"

definition from_dict :: "'n pyval \<Rightarrow> exn + 'n expense" where
  "from_dict data =
     (case getitem data ''amount'' of Inl x \<Rightarrow> Inl x | Inr a \<Rightarrow>
     (case getitem data ''category'' of Inl x \<Rightarrow> Inl x | Inr c \<Rightarrow>
     (case getitem data ''date'' of Inl x \<Rightarrow> Inl x | Inr d \<Rightarrow>
        Inr \<lparr>amount = a, category = c, date = d\<rparr>)))"

section \<open>The \<open>ExpenseTracker\<close> class\<close>

text \<open>
  The state is the list \<open>self.expenses\<close> and the file \<open>expenses.json\<close> (\<open>disk\<close>). The library
  functions \<open>json.dump\<close> and \<open>json.load\<close> are taken as a store of the JSON document: the
  file is absent, holds text that \<open>json.load\<close> rejects with \<open>JSONDecodeError\<close>, or holds a
  document. \<open>writes\<close> counts the calls of \<open>save_to_file\<close>.
\<close>

datatype 'n stored = NoFile | CorruptFile | JsonFile "'n pyval"

record 'n world =
  expenses :: "'n expense list"
  disk :: "'n stored"
  writes :: nat

text \<open>The lines the program prints.\<close>

datatype 'n out =
    InvalidDateFormat
  | ExpenseAdded 'n string string
  | InvalidAmountInput
  | NoExpensesYet
  | InvalidNumber
  | CategoryTotal string 'n
  | OverallTotal 'n
  | SkippingInvalidDate "'n pyval"
  | InvalidChoice
  | SummaryHeader
  | PeriodLine string 'n
  | ChooseValidOption
  | Loaded nat
  | NoPreviousData
  | DataFileCorrupt
  | NoExpensesToEdit
  | Listing nat "'n expense"
  | Editing "'n expense"
  | InvalidAmountKeeping
  | InvalidDateKeeping
  | ExpenseUpdated
  | InvalidSelection
  | InvalidInput
  | NoDataForGraph
  | BarChart "'n pyval list" "'n list"

text \<open>What a call leaves behind: the lines printed, and the exception that ended it, if
  one escaped.\<close>

type_synonym 'n trace = "'n out list \<times> exn option"

definition save_to_file :: "'n world \<Rightarrow> 'n world" where
  "save_to_file w = w\<lparr>disk := JsonFile (PList (map to_dict (expenses w))), writes := Suc (writes w)\<rparr>"

text \<open>\<open>[Expense.from_dict(item) for item in data]\<close> stops at the first exception.\<close>

fun from_dict_all :: "'n pyval list \<Rightarrow> exn + 'n expense list" where
  "from_dict_all [] = Inr []"
| "from_dict_all (item # items) =
     (case from_dict item of
        Inl x \<Rightarrow> Inl x
      | Inr e \<Rightarrow> (case from_dict_all items of Inl x \<Rightarrow> Inl x | Inr es \<Rightarrow> Inr (e # es)))"

definition load_from_file :: "'n world \<Rightarrow> 'n trace \<times> 'n world" where
  "load_from_file w =
     (case disk w of
        NoFile \<Rightarrow> (([NoPreviousData], None), w)
      | CorruptFile \<Rightarrow> (([DataFileCorrupt], None), w)
      | JsonFile data \<Rightarrow>
          (case py_iter data of
             Inl x \<Rightarrow> (([], Some x), w)
           | Inr items \<Rightarrow>
               (case from_dict_all items of
                  Inl x \<Rightarrow> (([], Some x), w)
                | Inr es \<Rightarrow> (([Loaded (length es)], None), w\<lparr>expenses := es\<rparr>))))"

text \<open>The script creates the tracker and calls \<open>load_from_file\<close> outside any \<open>try\<close>: an
  exception that escapes it ends the process with a traceback.\<close>

datatype 'n process = Running "'n world" | Terminated exn

definition startup :: "'n stored \<Rightarrow> 'n process" where
  "startup f =
     (case load_from_file \<lparr>expenses = [], disk = f, writes = 0\<rparr> of
        ((outs, Some x), w) \<Rightarrow> Terminated x
      | ((outs, None), w) \<Rightarrow> Running w)"

text \<open>
  \<open>add_expenses\<close>. \<open>py_float\<close> is the builtin \<open>float\<close> (\<open>None\<close> for its \<open>ValueError\<close>), \<open>now\<close>
  the date of \<open>datetime.now()\<close>; the three texts are the lines typed at the prompts.
\<close>

definition add_expenses ::
  "(string \<Rightarrow> 'n option) \<Rightarrow> int \<times> int \<times> int \<Rightarrow> string \<Rightarrow> string \<Rightarrow> string \<Rightarrow> 'n world
   \<Rightarrow> 'n trace \<times> 'n world" where
  "add_expenses py_float now amount_in category_in date_in w =
     (case py_float (strip amount_in) of
        None \<Rightarrow> (([InvalidAmountInput], None), w)
      | Some a \<Rightarrow>
          (let c = strip category_in;
               d0 = strip date_in;
               d = (if d0 = [] then strftime_Ymd now else d0)
           in case validate_date (PStr d :: 'n pyval) of
                Inl x \<Rightarrow> (([], Some x), w)
              | Inr False \<Rightarrow> (([InvalidDateFormat], None), w)
              | Inr True \<Rightarrow>
                  (([ExpenseAdded a c d], None),
                   save_to_file
                     (w\<lparr>expenses := expenses w @ [\<lparr>amount = PNum a, category = PStr c, date = PStr d\<rparr>]\<rparr>))))"

text \<open>\<open>for idx, exp in enumerate(self.expenses): print(f"{idx + 1}. {exp}")\<close>\<close>

definition listing :: "'n expense list \<Rightarrow> 'n out list" where
  "listing es = map (\<lambda>(idx, e). Listing (idx + 1) e) (enumerate 0 es)"

text \<open>\<open>edit_expense\<close>. \<open>py_int\<close> is the builtin \<open>int\<close> on a text. The object in the list is
  mutated in place; no other list position holds the same object.\<close>

definition edit_expense ::
  "(string \<Rightarrow> int option) \<Rightarrow> (string \<Rightarrow> 'n option) \<Rightarrow> string \<Rightarrow> string \<Rightarrow> string \<Rightarrow> string
   \<Rightarrow> 'n world \<Rightarrow> 'n trace \<times> 'n world" where
  "edit_expense py_int py_float choice_in amount_in category_in date_in w =
     (if expenses w = [] then (([NoExpensesToEdit], None), w)
      else case py_int (strip choice_in) of
        None \<Rightarrow> ((listing (expenses w) @ [InvalidInput], None), w)
      | Some choice \<Rightarrow>
          if 1 \<le> choice \<and> choice \<le> int (length (expenses w)) then
            (let i = nat (choice - 1);
                 e = expenses w ! i;
                 new_amount = strip amount_in;
                 new_category = strip category_in;
                 new_date = strip date_in;
                 (e1, o1) =
                   (if new_amount \<noteq> [] then
                      (case py_float new_amount of
                         Some a \<Rightarrow> (e\<lparr>amount := PNum a\<rparr>, [])
                       | None \<Rightarrow> (e, [InvalidAmountKeeping]))
                    else (e, []));
                 e2 = (if new_category \<noteq> [] then e1\<lparr>category := PStr new_category\<rparr> else e1);
                 (e3, o3) =
                   (if new_date \<noteq> [] then
                      (if validate_date (PStr new_date :: 'n pyval) = Inr True
                       then (e2\<lparr>date := PStr new_date\<rparr>, [])
                       else (e2, [InvalidDateKeeping]))
                    else (e2, []))
             in ((listing (expenses w) @ [Editing e] @ o1 @ o3 @ [ExpenseUpdated], None),
                 save_to_file (w\<lparr>expenses := (expenses w)[i := e3]\<rparr>)))
          else ((listing (expenses w) @ [InvalidSelection], None), w))"

text \<open>
  \<open>view_summary\<close>, choice 1: \<open>sum(exp.amount for exp in self.expenses if
  exp.category.lower() == category.lower())\<close>. \<open>sum\<close> starts from 0 and adds each amount
  as the generator yields it.
\<close>

fun total_for_category :: "string \<Rightarrow> 'n::{zero,one,plus} \<Rightarrow> 'n expense list \<Rightarrow> exn + 'n" where
  "total_for_category cat acc [] = Inr acc"
| "total_for_category cat acc (e # es) =
     (case py_lower (category e) of
        Inl x \<Rightarrow> Inl x
      | Inr c \<Rightarrow>
          if c = lower cat then
            (case py_add acc (amount e) of
               Inl x \<Rightarrow> Inl x
             | Inr acc' \<Rightarrow> total_for_category cat acc' es)
          else total_for_category cat acc es)"

text \<open>Choice 2: \<open>sum(exp.amount for exp in self.expenses)\<close>.\<close>

fun total_overall :: "'n::{zero,one,plus} \<Rightarrow> 'n expense list \<Rightarrow> exn + 'n" where
  "total_overall acc [] = Inr acc"
| "total_overall acc (e # es) =
     (case py_add acc (amount e) of Inl x \<Rightarrow> Inl x | Inr acc' \<Rightarrow> total_overall acc' es)"

text \<open>Choice 3: the key of a record whose date \<open>s\<close> parsed to \<open>dt\<close>; \<open>None\<close> is the
  \<open>else\<close> branch ("Invalid choice").\<close>

definition weekly_key :: "int \<times> int \<times> int \<Rightarrow> string" where
  "weekly_key dt =
     (case dt of (y, m, d) \<Rightarrow> str_int y @ ''-W'' @ str_int (fst (snd (isocalendar y m d))))"

definition bucket_key :: "int \<Rightarrow> string \<Rightarrow> int \<times> int \<times> int \<Rightarrow> string option" where
  "bucket_key time_choice s dt =
     (if time_choice = 1 then Some s
      else if time_choice = 2 then Some (strftime_Ym dt)
      else if time_choice = 3 then Some (weekly_key dt)
      else None)"

text \<open>How the loop over the records ends: it runs to its end with the summary built, it
  returns from the method, or an exception escapes.\<close>

datatype 'n loop_end = Completed "(string \<times> 'n) list" | EarlyReturn | Escaped exn

fun time_loop ::
  "int \<Rightarrow> 'n::{zero,one,plus} expense list \<Rightarrow> (string \<times> 'n) list \<Rightarrow> 'n out list \<times> 'n loop_end" where
  "time_loop time_choice [] summary = ([], Completed summary)"
| "time_loop time_choice (e # es) summary =
     (case validate_date (date e) of
        Inl x \<Rightarrow> ([], Escaped x)
      | Inr False \<Rightarrow>
          (case time_loop time_choice es summary of
             (outs, r) \<Rightarrow> (SkippingInvalidDate (date e) # outs, r))
      | Inr True \<Rightarrow>
          (case date e of
             PStr s \<Rightarrow>
               (case strptime s of
                  None \<Rightarrow> ([], Escaped ValueError)
                | Some dt \<Rightarrow>
                    (case bucket_key time_choice s dt of
                       None \<Rightarrow> ([InvalidChoice], EarlyReturn)
                     | Some key \<Rightarrow>
                         (case dict_add (=) summary key (amount e) of
                            Inl x \<Rightarrow> ([], Escaped x)
                          | Inr summary' \<Rightarrow> time_loop time_choice es summary')))
           | _ \<Rightarrow> ([], Escaped TypeError)))"

text \<open>\<open>sorted(summary.items())\<close>: the keys of a dict are distinct, so the order of the
  pairs is the order of their keys, the order of \<open>str\<close> by code points.\<close>

definition sorted_items :: "(string \<times> 'n) list \<Rightarrow> (string \<times> 'n) list" where
  "sorted_items summary = sort_key fst summary"

definition view_summary ::
  "(string \<Rightarrow> int option) \<Rightarrow> string \<Rightarrow> string \<Rightarrow> 'n::{zero,one,plus} world \<Rightarrow> 'n trace \<times> 'n world" where
  "view_summary py_int choice_in arg_in w =
     (if expenses w = [] then (([NoExpensesYet], None), w)
      else case py_int (strip choice_in) of
        None \<Rightarrow> (([InvalidNumber], None), w)
      | Some choice \<Rightarrow>
          if choice = 1 then
            (let cat = strip arg_in
             in case total_for_category cat 0 (expenses w) of
                  Inl x \<Rightarrow> (([], Some x), w)
                | Inr tot \<Rightarrow> (([CategoryTotal cat tot], None), w))
          else if choice = 2 then
            (case total_overall 0 (expenses w) of
               Inl x \<Rightarrow> (([], Some x), w)
             | Inr tot \<Rightarrow> (([OverallTotal tot], None), w))
          else if choice = 3 then
            (case py_int (strip arg_in) of
               None \<Rightarrow> (([InvalidNumber], None), w)
             | Some time_choice \<Rightarrow>
                 (case time_loop time_choice (expenses w) [] of
                    (outs, Escaped x) \<Rightarrow> ((outs, Some x), w)
                  | (outs, EarlyReturn) \<Rightarrow> ((outs, None), w)
                  | (outs, Completed summary) \<Rightarrow>
                      ((outs @ [SummaryHeader]
                        @ map (\<lambda>(period, a). PeriodLine period a) (sorted_items summary), None), w)))
          else (([ChooseValidOption], None), w))"

text \<open>\<open>graphical_summary\<close>: \<open>category_totals[exp.category] += exp.amount\<close>, the key being
  the category as stored; a list or a dict is not hashable.\<close>

fun category_loop ::
  "'n::{zero,one,plus} expense list \<Rightarrow> ('n pyval \<times> 'n) list \<Rightarrow> exn + ('n pyval \<times> 'n) list" where
  "category_loop [] totals = Inr totals"
| "category_loop (e # es) totals =
     (if \<not> hashable (category e) then Inl TypeError
      else case dict_add py_eq totals (category e) (amount e) of
             Inl x \<Rightarrow> Inl x
           | Inr totals' \<Rightarrow> category_loop es totals')"

text \<open>The chart receives \<open>categories\<close> and \<open>amounts\<close>; drawing it is left to the library.\<close>

definition graphical_summary :: "'n::{zero,one,plus} world \<Rightarrow> 'n trace \<times> 'n world" where
  "graphical_summary w =
     (if expenses w = [] then (([NoDataForGraph], None), w)
      else case category_loop (expenses w) [] of
        Inl x \<Rightarrow> (([], Some x), w)
      | Inr category_totals \<Rightarrow>
          (let categories = map fst category_totals;
               amounts = map (\<lambda>cat. case dict_get py_eq category_totals cat of
                                       None \<Rightarrow> 0 | Some v \<Rightarrow> v) categories
           in (([BarChart categories amounts], None), w)))"

section \<open>ISO 8601 weeks, as the standard words them\<close>

text \<open>
  Weeks start on Monday, and week 1 of a year is the week that holds the year's first
  Thursday. So the week of a day is numbered by the Thursday of that day's week: that
  Thursday lies in some calendar year, and the week number is its rank among the
  Thursdays of that year. \<open>weekday\<close> is 0 for Monday; the Thursday of the week of a day of
  year \<open>y\<close> lies in \<open>y - 1\<close>, \<open>y\<close> or \<open>y + 1\<close>.
\<close>

definition weekday :: "int \<Rightarrow> int" where
  "weekday n = (n + 6) mod 7"

definition iso8601_week :: "int \<Rightarrow> int \<Rightarrow> int \<Rightarrow> int" where
  "iso8601_week y m d =
     (let n = ymd2ord y m d;
          thursday = n - weekday n + 3;
          jan1 = (if thursday < ymd2ord y 1 1 then ymd2ord (y - 1) 1 1
                  else if thursday \<ge> ymd2ord (y + 1) 1 1 then ymd2ord (y + 1) 1 1
                  else ymd2ord y 1 1)
      in (thursday - jan1) div 7 + 1)"

text \<open>The bucket keys among the lines printed, in the order printed.\<close>

fun period_of :: "'n out \<Rightarrow> string list" where
  "period_of (PeriodLine period a) = [period]"
| "period_of _ = []"

definition periods :: "'n out list \<Rightarrow> string list" where
  "periods outs = concat (map period_of outs)"

section \<open>Sums of amounts\<close>


text \<open>
  The amounts typed are Python floats, binary64 numbers. For those that are whole numbers
  a value is written as its integer, and the sum of two is the exact sum rounded to 53
  significant bits, ties going to the even significand; \<open>ulp\<close> is the spacing of the
  binary64 numbers around \<open>n\<close>. Sums beyond the largest finite float are left out.
\<close>

function ulp :: "int \<Rightarrow> int" where
  "ulp n = (if n < 9007199254740992 then 1 else 2 * ulp (n div 2))"
  by pat_completeness auto
termination
  by (relation "measure nat") auto

declare ulp.simps [simp del]

definition round53 :: "int \<Rightarrow> int" where
  "round53 i =
     (let n = \<bar>i\<bar>;
          u = ulp n;
          q = n div u;
          r = n mod u;
          q' = (if 2 * r > u \<or> (2 * r = u \<and> odd q) then q + 1 else q)
      in sgn i * (q' * u))"

datatype pyfloat = PyFloat int

instantiation pyfloat :: "{zero,one,plus}"
begin

definition zero_pyfloat_def: "0 = PyFloat 0"

definition one_pyfloat_def: "1 = PyFloat 1"

definition plus_pyfloat_def:
  "x + y = (case (x, y) of (PyFloat a, PyFloat b) \<Rightarrow> PyFloat (round53 (a + b)))"

instance ..

end

section \<open>Evaluation of the date parser\<close>

lemmas date_eval =
  strptime_def re_date_def re_m_def re_d_def is_digit_def in_range_def digit_val_def
  check_date_fields_def days_in_month_def is_leap_def

lemmas strip_eval = strip_def py_isspace_def

lemma strptime_examples:
  "strptime ''2024-02-30'' = None"
  "strptime ''2024-02-29'' = Some (2024, 2, 29)"
  "strptime ''2023-02-29'' = None"
  "strptime ''2024-13-01'' = None"
  by (simp_all add: date_eval)

section \<open>Persistence\<close>

lemma from_dict_to_dict: "from_dict (to_dict e) = Inr e"
  by (simp add: from_dict_def to_dict_def)

lemma from_dict_all_to_dict: "from_dict_all (map to_dict es) = Inr es"
  by (induction es) (simp_all add: from_dict_to_dict)

text \<open>
  Claim C6. Whatever the list of records \<open>expenses w\<close>, a tracker \<open>w'\<close> that loads the file
  \<open>save_to_file\<close> has just written ends with exactly that list: the same length, the same
  order and the same three fields in every record. No exception escapes, and the line
  printed counts the records.
\<close>

theorem save_then_load:
  "load_from_file (w'\<lparr>disk := disk (save_to_file w)\<rparr>)
     = (([Loaded (length (expenses w))], None),
        w'\<lparr>disk := disk (save_to_file w), expenses := expenses w\<rparr>)"
  by (simp add: load_from_file_def save_to_file_def from_dict_all_to_dict)

text \<open>
  Claim C2. A file that holds a well-formed document whose one entry has no \<open>date\<close> key:
  \<open>from_dict\<close> raises \<open>KeyError\<close>, \<open>load_from_file\<close> has handlers for a missing file and
  for undecodable text only, and the script calls it outside any \<open>try\<close>, so the process
  ends at start-up instead of reporting the malformed record.
\<close>

theorem load_missing_key_terminates:
  "startup (JsonFile (PList [PDict [(''amount'', PNum a), (''category'', PStr ''Food'')]]))
     = Terminated (KeyError ''date'')"
  by (simp add: startup_def load_from_file_def from_dict_def)

section \<open>Aggregation\<close>

text \<open>
  Claim C3. Two records whose categories are \<open>Food\<close> and \<open>food\<close>: the chart receives two
  categories with one amount each, not one category with their sum. The keys of
  \<open>category_totals\<close> are the categories as stored, compared exactly, whereas the total of a
  category in \<open>view_summary\<close> compares them in lower case.
\<close>

theorem graphical_summary_case_sensitive:
  "graphical_summary
     \<lparr>expenses = [\<lparr>amount = PNum a, category = PStr ''Food'', date = PStr ''2024-01-01''\<rparr>,
                  \<lparr>amount = PNum b, category = PStr ''food'', date = PStr ''2024-01-02''\<rparr>],
      disk = f, writes = n\<rparr>
   = (([BarChart [PStr ''Food'', PStr ''food''] [0 + a, 0 + b]], None),
      \<lparr>expenses = [\<lparr>amount = PNum a, category = PStr ''Food'', date = PStr ''2024-01-01''\<rparr>,
                  \<lparr>amount = PNum b, category = PStr ''food'', date = PStr ''2024-01-02''\<rparr>],
      disk = f, writes = n\<rparr>)"
  by (simp add: graphical_summary_def dict_add_def)

text \<open>
  Claim C9. The summaries read the tracker and change nothing: whatever is typed, and
  whether the call prints a result, returns early or is ended by an exception, the state
  after \<open>view_summary\<close> (total of a category, overall total, summary over time) and after
  \<open>graphical_summary\<close> is the state before, with the same records in the same order.
\<close>

theorem summaries_leave_state:
  "snd (view_summary py_int choice_in arg_in w) = w \<and> snd (graphical_summary w) = w"
  by (simp add: view_summary_def graphical_summary_def Let_def
      split: option.splits sum.splits prod.splits loop_end.splits)

section \<open>Validation of dates\<close>

text \<open>
  Claim C5. \<open>validate_date\<close> accepts texts that are not of the form \<open>YYYY-MM-DD\<close>: a month
  or a day of one digit, and a day written as a space and a digit. The examples of the
  claim itself come out as it says (\<open>strptime_examples\<close>).
\<close>

theorem validate_date_accepts_short_fields:
  "validate_date (PStr ''2024-1-5'') = Inr True
   \<and> validate_date (PStr ''2024-01- 5'') = Inr True
   \<and> strptime ''2024-1-5'' = Some (2024, 1, 5)
   \<and> strptime ''2024-01- 5'' = Some (2024, 1, 5)"
  by (simp add: date_eval)

section \<open>Adding and editing\<close>

text \<open>
  Claim C7. An add whose date, once stripped, is not empty and fails \<open>validate_date\<close>
  leaves the state as it was: no record is appended and nothing is written; when the
  amount is a number the line printed is the one about the date format (when it is not,
  the add has already been rejected for the amount). An add whose amount is a number
  and whose date (the one typed, or today's when none is typed) passes \<open>validate_date\<close>
  appends the new record at the end and writes the file, which then holds the new list.
\<close>

theorem add_expenses_date_check:
  fixes w :: "'n world" and py_float :: "string \<Rightarrow> 'n option"
  shows
  "(strip date_in \<noteq> [] \<and> validate_date (PStr (strip date_in) :: 'n pyval) = Inr False \<longrightarrow>
      snd (add_expenses py_float now amount_in category_in date_in w) = w
      \<and> (py_float (strip amount_in) \<noteq> None \<longrightarrow>
           fst (add_expenses py_float now amount_in category_in date_in w)
             = ([InvalidDateFormat], None)))
   \<and> (py_float (strip amount_in) = Some a
        \<and> d = (if strip date_in = [] then strftime_Ymd now else strip date_in)
        \<and> validate_date (PStr d :: 'n pyval) = Inr True \<longrightarrow>
      add_expenses py_float now amount_in category_in date_in w
        = (([ExpenseAdded a (strip category_in) d], None),
           \<lparr>expenses = expenses w
              @ [\<lparr>amount = PNum a, category = PStr (strip category_in), date = PStr d\<rparr>],
            disk = JsonFile (PList (map to_dict (expenses w
              @ [\<lparr>amount = PNum a, category = PStr (strip category_in), date = PStr d\<rparr>]))),
            writes = Suc (writes w)\<rparr>))"
  by (auto simp add: add_expenses_def save_to_file_def Let_def split: option.splits)

theorem add_expenses_date_check_witness:
  "(let pf = (\<lambda>s. if s = ''12'' then Some (12::int) else None);
        w = \<lparr>expenses = [], disk = NoFile, writes = 0\<rparr>
    in strip ''2024-02-30 '' \<noteq> []
       \<and> validate_date (PStr (strip ''2024-02-30 '') :: int pyval) = Inr False
       \<and> pf (strip '' 12'') \<noteq> None
       \<and> add_expenses pf (2026, 11, 4) '' 12'' ''Food'' ''2024-02-30 '' w
           = (([InvalidDateFormat], None), w)
       \<and> validate_date (PStr ''2024-02-29'' :: int pyval) = Inr True
       \<and> add_expenses pf (2026, 11, 4) '' 12'' ''Food '' ''2024-02-29'' w
           = (([ExpenseAdded 12 ''Food'' ''2024-02-29''], None),
              \<lparr>expenses = [\<lparr>amount = PNum 12, category = PStr ''Food'', date = PStr ''2024-02-29''\<rparr>],
               disk = JsonFile (PList [PDict [(''amount'', PNum 12), (''category'', PStr ''Food''),
                                              (''date'', PStr ''2024-02-29'')]]),
               writes = 1\<rparr>))"
  using
    add_expenses_date_check [where py_float = "\<lambda>s. if s = ''12'' then Some (12::int) else None"
      and now = "(2026, 11, 4)" and amount_in = "'' 12''" and category_in = "''Food''"
      and date_in = "''2024-02-30 ''" and w = "\<lparr>expenses = [], disk = NoFile, writes = 0\<rparr>"]
    add_expenses_date_check [where py_float = "\<lambda>s. if s = ''12'' then Some (12::int) else None"
      and now = "(2026, 11, 4)" and amount_in = "'' 12''" and category_in = "''Food ''"
      and date_in = "''2024-02-29''" and w = "\<lparr>expenses = [], disk = NoFile, writes = 0\<rparr>"
      and a = 12 and d = "''2024-02-29''"]
  by (simp add: Let_def strip_eval date_eval to_dict_def prod_eq_iff)

text \<open>
  Claim C8. An edit of a validly selected record, position \<open>choice\<close> of the list. The
  three fields are decided one by one: the amount becomes the number typed when the text
  is not empty and is a number, and stays otherwise; the category becomes the text typed
  whenever it is not empty; the date becomes the text typed when it is not empty and
  passes \<open>validate_date\<close>, and stays otherwise. The other records are untouched, and in
  every case the file is written once and then holds the list as edited.
\<close>

theorem edit_expense_fields:
  fixes w :: "'n world" and py_float :: "string \<Rightarrow> 'n option"
    and choice_in amount_in category_in date_in :: string
  assumes "py_int (strip choice_in) = Some choice"
    and "1 \<le> choice" and "choice \<le> int (length (expenses w))"
  defines "i \<equiv> nat (choice - 1)"
  defines "w' \<equiv> snd (edit_expense py_int py_float choice_in amount_in category_in date_in w)"
  shows "length (expenses w') = length (expenses w)
    \<and> (\<forall>j < length (expenses w). j \<noteq> i \<longrightarrow> expenses w' ! j = expenses w ! j)
    \<and> amount (expenses w' ! i) =
         (case py_float (strip amount_in) of
            Some a \<Rightarrow> if strip amount_in \<noteq> [] then PNum a else amount (expenses w ! i)
          | None \<Rightarrow> amount (expenses w ! i))
    \<and> category (expenses w' ! i) =
         (if strip category_in \<noteq> [] then PStr (strip category_in) else category (expenses w ! i))
    \<and> date (expenses w' ! i) =
         (if strip date_in \<noteq> [] \<and> validate_date (PStr (strip date_in) :: 'n pyval) = Inr True
          then PStr (strip date_in) else date (expenses w ! i))
    \<and> disk w' = JsonFile (PList (map to_dict (expenses w')))
    \<and> writes w' = Suc (writes w)
    \<and> snd (fst (edit_expense py_int py_float choice_in amount_in category_in date_in w)) = None"
proof -
  from assms(2,3) have ne: "expenses w \<noteq> []" and il: "i < length (expenses w)"
    by (auto simp: i_def)
  show ?thesis
    using assms(1,2,3) ne il unfolding w'_def i_def
    by (auto simp add: edit_expense_def save_to_file_def Let_def split: option.splits)
qed

theorem edit_expense_fields_witness:
  "let pi = (\<lambda>s. if s = ''1'' then Some (1::int) else None);
       pf = (\<lambda>s. if s = ''12'' then Some (12::int) else None);
       w = \<lparr>expenses = [\<lparr>amount = PNum 3, category = PStr ''Food'', date = PStr ''2024-01-01''\<rparr>],
            disk = NoFile, writes = 0\<rparr>;
       w' = snd (edit_expense pi pf ''1'' ''abc'' ''Rent'' ''2024-02-30'' w)
   in pi (strip ''1'') = Some 1 \<and> (1::int) \<le> int (length (expenses w))
      \<and> expenses w' = [\<lparr>amount = PNum 3, category = PStr ''Rent'', date = PStr ''2024-01-01''\<rparr>]
      \<and> writes w' = 1"
  using edit_expense_fields [where py_int = "\<lambda>s. if s = ''1'' then Some (1::int) else None"
      and py_float = "\<lambda>s. if s = ''12'' then Some (12::int) else None"
      and choice_in = "''1''" and choice = 1 and amount_in = "''abc''" and category_in = "''Rent''"
      and date_in = "''2024-02-30''"
      and w = "\<lparr>expenses = [\<lparr>amount = PNum 3, category = PStr ''Food'', date = PStr ''2024-01-01''\<rparr>],
            disk = NoFile, writes = 0\<rparr>"]
  by (simp add: Let_def strip_eval edit_expense_def save_to_file_def listing_def date_eval)

section \<open>The week numbers of \<open>isocalendar\<close>\<close>

lemma div_step:
  fixes y k :: int
  assumes "0 < k"
  shows "y div k - (y - 1) div k = (if y mod k = 0 then 1 else 0)"
proof -
  define q where "q = y div k"
  define r where "r = y mod k"
  have y: "y = k * q + r" and r0: "0 \<le> r" and rk: "r < k"
    using assms by (simp_all add: q_def r_def)
  show ?thesis
  proof (cases "r = 0")
    case True
    have "y - 1 = k * (q - 1) + (k - 1)" using y True by (simp add: algebra_simps)
    then have "(y - 1) div k = q - 1" by (rule int_div_pos_eq) (use assms in simp_all)
    then show ?thesis using True by (simp add: q_def r_def)
  next
    case False
    have "y - 1 = k * q + (r - 1)" using y by simp
    then have "(y - 1) div k = q" by (rule int_div_pos_eq) (use r0 rk False in simp_all)
    then show ?thesis using False by (simp add: q_def r_def)
  qed
qed

lemma mod_400_100: "(y::int) mod 400 = 0 \<Longrightarrow> y mod 100 = 0"
proof -
  assume "y mod 400 = 0"
  then have "400 dvd y" by (simp add: mod_eq_0_iff_dvd)
  moreover have "(100::int) dvd 400" by simp
  ultimately have "100 dvd y" by (rule dvd_trans[rotated])
  then show ?thesis by (simp add: mod_eq_0_iff_dvd)
qed

lemma mod_100_4: "(y::int) mod 100 = 0 \<Longrightarrow> y mod 4 = 0"
proof -
  assume "y mod 100 = 0"
  then have "100 dvd y" by (simp add: mod_eq_0_iff_dvd)
  moreover have "(4::int) dvd 100" by simp
  ultimately have "4 dvd y" by (rule dvd_trans[rotated])
  then show ?thesis by (simp add: mod_eq_0_iff_dvd)
qed

text \<open>A year has 365 days, or 366 when it is a leap year. The quotients are named before
  any arithmetic is done, so that no method has to split them.\<close>

lemma year_length:
  "days_before_year (y + 1) = days_before_year y + (if is_leap y then 366 else 365)"
proof -
  define p where "p = y div 4"
  define p' where "p' = (y - 1) div 4"
  define q where "q = y div 100"
  define q' where "q' = (y - 1) div 100"
  define r where "r = y div 400"
  define r' where "r' = (y - 1) div 400"
  have a: "p - p' = (if y mod 4 = 0 then 1 else 0)" unfolding p_def p'_def by (rule div_step) simp
  have b: "q - q' = (if y mod 100 = 0 then 1 else 0)" unfolding q_def q'_def by (rule div_step) simp
  have c: "r - r' = (if y mod 400 = 0 then 1 else 0)" unfolding r_def r'_def by (rule div_step) simp
  have e1: "days_before_year (y + 1) = y * 365 + p - q + r"
    by (simp only: days_before_year_def p_def q_def r_def add_diff_cancel_right')
  have e2: "days_before_year y = (y - 1) * 365 + p' - q' + r'"
    by (simp only: days_before_year_def p'_def q'_def r'_def)
  have e3: "(y - 1) * 365 = y * 365 - 365" by (simp add: algebra_simps)
  show ?thesis
  proof (cases "y mod 4 = 0")
    case False
    then have n100: "y mod 100 \<noteq> 0" using mod_100_4[of y] by auto
    then have n400: "y mod 400 \<noteq> 0" using mod_400_100[of y] by auto
    have "p - p' = 0" "q - q' = 0" "r - r' = 0" using a b c False n100 n400 by simp_all
    moreover have "\<not> is_leap y" using False by (simp add: is_leap_def)
    ultimately show ?thesis unfolding e1 e2 e3 by simp
  next
    case True
    show ?thesis
    proof (cases "y mod 100 = 0")
      case False
      then have n400: "y mod 400 \<noteq> 0" using mod_400_100[of y] by auto
      have "p - p' = 1" "q - q' = 0" "r - r' = 0" using a b c True False n400 by simp_all
      moreover have "is_leap y" using True False by (simp add: is_leap_def)
      ultimately show ?thesis unfolding e1 e2 e3 by simp
    next
      case h: True
      show ?thesis
      proof (cases "y mod 400 = 0")
        case False
        have "p - p' = 1" "q - q' = 1" "r - r' = 0" using a b c True h False by simp_all
        moreover have "\<not> is_leap y" using h False by (simp add: is_leap_def)
        ultimately show ?thesis unfolding e1 e2 e3 by simp
      next
        case t: True
        have "p - p' = 1" "q - q' = 1" "r - r' = 1" using a b c True h t by simp_all
        moreover have "is_leap y" using True t by (simp add: is_leap_def)
        ultimately show ?thesis unfolding e1 e2 e3 by simp
      qed
    qed
  qed
qed

lemma div7: "0 \<le> r \<Longrightarrow> r < 7 \<Longrightarrow> (7 * A + r) div 7 = (A::int)"
  by simp

lemma monday_form: "\<exists>u. n - (n + 6) mod 7 = 7 * u - (6::int)"
proof -
  have "n + 6 = 7 * ((n + 6) div 7) + (n + 6) mod 7" by simp
  then have "n - (n + 6) mod 7 = 7 * ((n + 6) div 7) - 6" by linarith
  then show ?thesis by blast
qed

text \<open>\<open>isoweek1monday y\<close> is a Monday, at most three days from 1 January of \<open>y\<close>.\<close>

lemma isoweek1monday_props:
  "(\<exists>v. isoweek1monday y = 7 * v - 6)
   \<and> ymd2ord y 1 1 - 3 \<le> isoweek1monday y \<and> isoweek1monday y \<le> ymd2ord y 1 1 + 3"
proof -
  define f where "f = ymd2ord y 1 1"
  define a where "a = (f + 6) mod 7"
  have a: "0 \<le> a" "a < 7" by (simp_all add: a_def)
  obtain u where u: "f - a = 7 * u - 6" using monday_form[of f] unfolding a_def by blast
  have w: "isoweek1monday y = (if a > 3 then f - a + 7 else f - a)"
    by (simp add: isoweek1monday_def Let_def f_def a_def)
  show ?thesis
  proof (cases "a > 3")
    case True
    then have "isoweek1monday y = 7 * (u + 1) - 6" using w u by simp
    moreover have "f - 3 \<le> isoweek1monday y \<and> isoweek1monday y \<le> f + 3" using w True a by simp
    ultimately show ?thesis unfolding f_def by blast
  next
    case False
    then have "isoweek1monday y = 7 * u - 6" using w u by simp
    moreover have "f - 3 \<le> isoweek1monday y \<and> isoweek1monday y \<le> f + 3" using w False a by simp
    ultimately show ?thesis unfolding f_def by blast
  qed
qed

lemma jan1: "ymd2ord y 1 1 = days_before_year y + 1"
  by (simp add: ymd2ord_def days_before_month_def)

lemma month_cases: "1 \<le> m \<Longrightarrow> m \<le> 12 \<Longrightarrow>
  m = 1 \<or> m = 2 \<or> m = 3 \<or> m = 4 \<or> m = 5 \<or> m = 6 \<or> m = 7 \<or> m = 8 \<or> m = 9 \<or> m = 10 \<or> m = 11
  \<or> m = (12::int)"
  by arith

lemma day_of_year_range:
  assumes "check_date_fields y m d"
  shows "1 \<le> days_before_month y m + d
         \<and> days_before_month y m + d \<le> (if is_leap y then 366 else 365)"
proof -
  from assms have m: "1 \<le> m" "m \<le> 12" and d: "1 \<le> d" "d \<le> days_in_month y m"
    by (simp_all add: check_date_fields_def)
  from month_cases[OF m] show ?thesis
    using d
    by (elim disjE) (simp_all add: days_before_month_def days_in_month_def split: if_splits)
qed

text \<open>
  The arithmetic of the comparison, on integers alone. \<open>f\<close> is 1 January of the year, \<open>L\<close>
  and \<open>L'\<close> the lengths of the year and of the one before, \<open>n\<close> the day, \<open>wd\<close> its weekday,
  and \<open>M0\<close>, \<open>M1\<close>, \<open>M'\<close> the Mondays of week 1 of the year, the next and the previous one.
\<close>

lemma iso_core:
  fixes f n L L' u v w x wd M0 M1 M' :: int
  assumes n: "f \<le> n" "n < f + L"
    and L: "365 \<le> L" "L \<le> 366" and L': "365 \<le> L'" "L' \<le> 366"
    and wd: "0 \<le> wd" "wd < 7" and mo: "n - wd = 7 * u - 6"
    and m0: "M0 = 7 * v - 6" "f - 3 \<le> M0" "M0 \<le> f + 3"
    and m1: "M1 = 7 * w - 6" "f + L - 3 \<le> M1" "M1 \<le> f + L + 3"
    and m': "M' = 7 * x - 6" "f - L' - 3 \<le> M'" "M' \<le> f - L' + 3"
  defines "py \<equiv> (if (n - M0) div 7 < 0 then (n - M') div 7 + 1
                  else if (n - M0) div 7 \<ge> 52 \<and> n \<ge> M1 then 1
                  else (n - M0) div 7 + 1)"
  shows "py = (n - wd + 3 - (if n - wd + 3 < f then f - L'
                             else if n - wd + 3 \<ge> f + L then f + L else f)) div 7 + 1"
    and "1 \<le> py" and "py \<le> 53"
proof -
  have d0: "(n - M0) div 7 = u - v"
  proof -
    have "n - M0 = 7 * (u - v) + wd" using mo m0(1) by simp
    then show ?thesis using div7[OF wd] by simp
  qed
  have d': "(n - M') div 7 = u - x"
  proof -
    have "n - M' = 7 * (u - x) + wd" using mo m'(1) by simp
    then show ?thesis using div7[OF wd] by simp
  qed
  have t0: "(n - wd + 3 - f) div 7 = u - v"
  proof -
    have "n - wd + 3 - f = 7 * (u - v) + (M0 + 3 - f)" using mo m0(1) by simp
    moreover have "0 \<le> M0 + 3 - f" "M0 + 3 - f < 7" using m0(2,3) by simp_all
    ultimately show ?thesis using div7 by simp
  qed
  have t1: "(n - wd + 3 - (f + L)) div 7 = u - w"
  proof -
    have "n - wd + 3 - (f + L) = 7 * (u - w) + (M1 + 3 - (f + L))" using mo m1(1) by simp
    moreover have "0 \<le> M1 + 3 - (f + L)" "M1 + 3 - (f + L) < 7" using m1(2,3) by simp_all
    ultimately show ?thesis using div7 by simp
  qed
  have t': "(n - wd + 3 - (f - L')) div 7 = u - x"
  proof -
    have "n - wd + 3 - (f - L') = 7 * (u - x) + (M' + 3 - (f - L'))" using mo m'(1) by simp
    moreover have "0 \<le> M' + 3 - (f - L')" "M' + 3 - (f - L') < 7" using m'(2,3) by simp_all
    ultimately show ?thesis using div7 by simp
  qed
  have c1: "n - wd + 3 < f \<longleftrightarrow> u < v" using mo m0 by arith
  have c2: "n - wd + 3 \<ge> f + L \<longleftrightarrow> w \<le> u" using mo m1 by arith
  have c3: "n \<ge> M1 \<longleftrightarrow> w \<le> u" using mo m1(1) wd by arith
  have c4: "u \<le> w" using n(2) mo m1 wd by arith
  have c5: "52 \<le> w - v" using m0 m1 L by arith
  have c6: "w - v \<le> 53" using m0 m1 L by arith
  have c7: "v - 1 \<le> u" using n(1) mo m0 wd by arith
  have c8: "52 \<le> v - x" "v - x \<le> 53" using m0 m' L' by arith+
  show "py = (n - wd + 3 - (if n - wd + 3 < f then f - L'
                            else if n - wd + 3 \<ge> f + L then f + L else f)) div 7 + 1"
    unfolding py_def d0 d' c1 c2 c3 using t0 t1 t' c4 c5 by (auto simp: c1 c2)
  show "1 \<le> py" "py \<le> 53"
    unfolding py_def d0 d' c3 using c4 c6 c7 c8 by auto
qed

text \<open>The week number that \<open>isocalendar\<close> computes is the ISO 8601 week number.\<close>

lemma isocalendar_week:
  assumes v: "check_date_fields y m d"
  shows "fst (snd (isocalendar y m d)) = iso8601_week y m d"
    and "1 \<le> iso8601_week y m d" and "iso8601_week y m d \<le> 53"
proof -
  define f where "f = ymd2ord y 1 1"
  define n where "n = ymd2ord y m d"
  define L where "L = (if is_leap y then 366 else 365 :: int)"
  define L' where "L' = (if is_leap (y - 1) then 366 else 365 :: int)"
  define M0 where "M0 = isoweek1monday y"
  define M1 where "M1 = isoweek1monday (y + 1)"
  define M' where "M' = isoweek1monday (y - 1)"
  define wd where "wd = (n + 6) mod 7"
  have f1: "ymd2ord (y + 1) 1 1 = f + L"
    by (simp add: jan1 year_length f_def L_def)
  have f': "ymd2ord (y - 1) 1 1 = f - L'"
    using year_length[of "y - 1"] by (simp add: jan1 f_def L'_def)
  have nr: "f \<le> n" "n < f + L"
  proof -
    have a: "f = days_before_year y + 1" by (simp add: f_def jan1)
    have b: "n = days_before_year y + (days_before_month y m + d)" by (simp add: n_def ymd2ord_def)
    from day_of_year_range[OF v] show "f \<le> n" "n < f + L" unfolding a b L_def by simp_all
  qed
  have L: "365 \<le> L" "L \<le> 366" "365 \<le> L'" "L' \<le> 366" by (simp_all add: L_def L'_def)
  have wd: "0 \<le> wd" "wd < 7" by (simp_all add: wd_def)
  obtain u where u: "n - wd = 7 * u - 6" using monday_form[of n] unfolding wd_def by blast
  from isoweek1monday_props[of y] obtain v where
    m0: "M0 = 7 * v - 6" "f - 3 \<le> M0" "M0 \<le> f + 3" unfolding M0_def f_def by blast
  from isoweek1monday_props[of "y + 1"] obtain w where
    m1: "M1 = 7 * w - 6" "f + L - 3 \<le> M1" "M1 \<le> f + L + 3" unfolding M1_def f1 by blast
  from isoweek1monday_props[of "y - 1"] obtain x where
    m': "M' = 7 * x - 6" "f - L' - 3 \<le> M'" "M' \<le> f - L' + 3" unfolding M'_def f' by blast
  note core = iso_core[OF nr L wd u m0 m1 m']
  have lhs: "fst (snd (isocalendar y m d))
      = (if (n - M0) div 7 < 0 then (n - M') div 7 + 1
         else if (n - M0) div 7 \<ge> 52 \<and> n \<ge> M1 then 1
         else (n - M0) div 7 + 1)"
    unfolding isocalendar_def Let_def n_def M0_def M1_def M'_def
    by (simp only: if_distrib[of "\<lambda>p. fst (snd p)"] fst_conv snd_conv)
  have rhs: "iso8601_week y m d
      = (n - wd + 3 - (if n - wd + 3 < f then f - L'
                        else if n - wd + 3 \<ge> f + L then f + L else f)) div 7 + 1"
    unfolding iso8601_week_def weekday_def Let_def f1 f' wd_def n_def f_def
    by (rule refl)
  show eq: "fst (snd (isocalendar y m d)) = iso8601_week y m d"
    unfolding lhs rhs by (rule core(1))
  from core(2,3) show "1 \<le> iso8601_week y m d" "iso8601_week y m d \<le> 53"
    unfolding eq[symmetric] lhs by simp_all
qed

section \<open>The summary over time\<close>

lemma dict_set_keys: "fst ` set (dict_set (=) k v d) = insert k (fst ` set d)"
proof (induction d)
  case Nil
  show ?case by simp
next
  case (Cons p d)
  obtain k' v' where p: "p = (k', v')" by (cases p)
  show ?case
  proof (cases "k' = k")
    case True
    then show ?thesis using p by simp
  next
    case False
    then show ?thesis using p Cons.IH by (simp add: insert_commute)
  qed
qed

lemma dict_set_distinct: "distinct (map fst d) \<Longrightarrow> distinct (map fst (dict_set (=) k v d))"
proof (induction d)
  case Nil
  then show ?case by simp
next
  case (Cons p d)
  obtain k' v' where p: "p = (k', v')" by (cases p)
  show ?case
  proof (cases "k' = k")
    case True
    with Cons.prems p show ?thesis by simp
  next
    case False
    have "k' \<notin> fst ` set (dict_set (=) k v d)"
      using Cons.prems p False unfolding dict_set_keys by simp
    with Cons p False show ?thesis by simp
  qed
qed

lemma dict_add_keys:
  assumes "dict_add (=) d k a = Inr d'"
  shows "fst ` set d' = insert k (fst ` set d)"
    and "distinct (map fst d) \<Longrightarrow> distinct (map fst d')"
proof -
  from assms obtain v where "d' = dict_set (=) k v d"
    by (auto simp: dict_add_def split: sum.splits)
  then show "fst ` set d' = insert k (fst ` set d)"
    and "distinct (map fst d) \<Longrightarrow> distinct (map fst d')"
    by (simp_all add: dict_set_keys dict_set_distinct)
qed

lemma time_loop_keys:
  "time_loop tc es s0 = (outs, Completed s) \<Longrightarrow>
     fst ` set s0 \<subseteq> fst ` set s
     \<and> (distinct (map fst s0) \<longrightarrow> distinct (map fst s))
     \<and> (\<forall>e \<in> set es. \<forall>str dt. date e = PStr str \<longrightarrow> strptime str = Some dt \<longrightarrow>
           (\<exists>k. bucket_key tc str dt = Some k \<and> k \<in> fst ` set s))"
proof (induction es arbitrary: s0 outs)
  case Nil
  then show ?case by simp
next
  case (Cons e es)
  show ?case
  proof (cases "date e")
    case (PStr str)
    show ?thesis
    proof (cases "strptime str")
      case None
      with Cons.prems PStr obtain outs' where "time_loop tc es s0 = (outs', Completed s)"
        by (auto split: prod.splits)
      from Cons.IH[OF this] show ?thesis using PStr None by auto
    next
      case (Some dt)
      with Cons.prems PStr obtain k s1 where
        k: "bucket_key tc str dt = Some k" and a: "dict_add (=) s0 k (amount e) = Inr s1"
        and r: "time_loop tc es s1 = (outs, Completed s)"
        by (auto split: option.splits sum.splits)
      from dict_add_keys[OF a] Cons.IH[OF r] show ?thesis using PStr Some k by auto
    qed
  qed (use Cons.prems in auto)
qed

lemma strptime_fields: "strptime s = Some (y, m, d) \<Longrightarrow> check_date_fields y m d"
  by (auto simp: strptime_def split: list.splits prod.splits if_splits)

text \<open>
  The week number in a weekly key is the ISO 8601 week number of the date, between 1 and
  53; the year in front of it is the calendar year of the date, and neither is padded.
\<close>

lemma weekly_bucket_key:
  fixes s :: string
  assumes "validate_date (PStr s :: 'n::{zero,one,plus} pyval) = Inr True"
  shows "\<exists>y m d. strptime s = Some (y, m, d)
           \<and> bucket_key 3 s (y, m, d) = Some (str_int y @ ''-W'' @ str_int (iso8601_week y m d))
           \<and> 1 \<le> iso8601_week y m d \<and> iso8601_week y m d \<le> 53
           \<and> (\<forall>(es :: 'n expense list) outs summary.
                 (\<exists>e \<in> set es. date e = PStr s) \<and> time_loop 3 es [] = (outs, Completed summary)
                 \<longrightarrow> str_int y @ ''-W'' @ str_int (iso8601_week y m d) \<in> fst ` set summary)"
proof -
  from assms obtain y m d where p: "strptime s = Some (y, m, d)" by auto
  note v = strptime_fields[OF p]
  have k: "bucket_key 3 s (y, m, d) = Some (str_int y @ ''-W'' @ str_int (iso8601_week y m d))"
    by (simp add: bucket_key_def weekly_key_def isocalendar_week(1)[OF v])
  have "str_int y @ ''-W'' @ str_int (iso8601_week y m d) \<in> fst ` set summary"
    if "\<exists>e \<in> set es. date e = PStr s" and "time_loop 3 es [] = (outs, Completed summary)"
    for es :: "'n expense list" and outs summary
    using time_loop_keys[OF that(2)] that(1) p k by auto
  with p k isocalendar_week(2,3)[OF v] show ?thesis by blast
qed

text \<open>
  Claim C1. The weekly summary of one record of 100 dated 2024-01-01 has the single key
  \<open>2024-W1\<close>, not \<open>2024-W01\<close>: the week number is not padded. And the year of the key is the
  calendar year of the date, not the year the ISO week belongs to: 2024-12-30 is the
  Monday of week 1 of 2025, its key is \<open>2024-W1\<close> again, and a record of 50 on that day is
  added to the bucket of 2024-01-01, a week 52 weeks earlier, so that the summary printed
  is the single line of \<open>2024-W1\<close> with 150.
\<close>

theorem weekly_key_2024_01_01:
  "time_loop 3 [\<lparr>amount = PNum (100::int), category = PStr ''Food'', date = PStr ''2024-01-01''\<rparr>] []
     = ([], Completed [(''2024-W1'', 100)])
   \<and> ''2024-W1'' \<noteq> ''2024-W01''
   \<and> isocalendar 2024 1 1 = (2024, 1, 1)
   \<and> isocalendar 2024 12 30 = (2025, 1, 1)
   \<and> bucket_key 3 ''2024-12-30'' (2024, 12, 30) = Some ''2024-W1''
   \<and> fst (view_summary [''3'' \<mapsto> 3] ''3'' '' 3''
        \<lparr>expenses = [\<lparr>amount = PNum (100::int), category = PStr ''Food'', date = PStr ''2024-01-01''\<rparr>,
                      \<lparr>amount = PNum 50, category = PStr ''Rent'', date = PStr ''2024-12-30''\<rparr>],
         disk = NoFile, writes = 0\<rparr>)
       = ([SummaryHeader, PeriodLine ''2024-W1'' 150], None)"
  by code_simp

section \<open>The order of the lines of the summary over time\<close>

text \<open>The lines of the periods are printed in ascending order of their keys as strings,
  each key once, whatever is typed and whatever the ledger holds.\<close>

lemma periods_append: "periods (xs @ ys) = periods xs @ periods ys"
  by (simp add: periods_def)

lemma periods_PeriodLine: "periods (map (\<lambda>(period, a). PeriodLine period a) xs) = map fst xs"
  by (induction xs) (auto simp: periods_def)

lemma time_loop_periods: "time_loop tc es s0 = (outs, r) \<Longrightarrow> periods outs = []"
proof (induction es arbitrary: s0 outs)
  case Nil
  then show ?case by (simp add: periods_def)
next
  case (Cons e es)
  then show ?case
    by (auto simp: periods_def split: sum.splits bool.splits prod.splits pyval.splits
        option.splits)
qed

lemma distinct_map_sort_key:
  assumes "distinct (map f xs)"
  shows "distinct (map f (sort_key f xs))"
proof -
  have "card (set (map f (sort_key f xs))) = card (set (map f xs))" by simp
  also have "\<dots> = length (map f xs)" using assms by (rule distinct_card)
  also have "\<dots> = length (map f (sort_key f xs))" by simp
  finally show ?thesis by (rule card_distinct)
qed

lemma periods_simps:
  "periods [] = []"
  "periods (x # xs) = period_of x @ periods xs"
  by (simp_all add: periods_def)

lemma view_summary_periods:
  "periods (fst (fst (view_summary py_int choice_in arg_in w))) = []
   \<or> (\<exists>tc outs s. time_loop tc (expenses w) [] = (outs, Completed s)
         \<and> periods (fst (fst (view_summary py_int choice_in arg_in w))) = map fst (sorted_items s))"
proof (cases "expenses w \<noteq> [] \<and> py_int (strip choice_in) = Some 3
    \<and> (\<exists>tc outs s. py_int (strip arg_in) = Some tc
          \<and> time_loop tc (expenses w) [] = (outs, Completed s))")
  case True
  then obtain tc outs s where a: "expenses w \<noteq> []" "py_int (strip choice_in) = Some 3"
    "py_int (strip arg_in) = Some tc" and t: "time_loop tc (expenses w) [] = (outs, Completed s)"
    by blast
  have "periods (fst (fst (view_summary py_int choice_in arg_in w))) = map fst (sorted_items s)"
    by (simp add: view_summary_def a t periods_append periods_PeriodLine periods_simps
        time_loop_periods[OF t])
  with t show ?thesis by blast
next
  case False
  have "periods (fst (fst (view_summary py_int choice_in arg_in w))) = []"
  proof (cases "expenses w \<noteq> [] \<and> py_int (strip choice_in) = Some 3")
    case n: False
    then show ?thesis
      by (auto simp: view_summary_def Let_def periods_simps split: option.splits sum.splits)
  next
    case y: True
    show ?thesis
    proof (cases "py_int (strip arg_in)")
      case None
      with y show ?thesis by (simp add: view_summary_def periods_simps)
    next
      case (Some tc)
      obtain outs r where t: "time_loop tc (expenses w) [] = (outs, r)"
        by (cases "time_loop tc (expenses w) []")
      from False y Some t have "\<forall>s. r \<noteq> Completed s" by auto
      with y Some t time_loop_periods[OF t] show ?thesis
        by (cases r) (simp_all add: view_summary_def)
    qed
  qed
  then show ?thesis by blast
qed

lemma view_summary_sorted:
  "sorted (periods (fst (fst (view_summary py_int choice_in arg_in w))))
   \<and> distinct (periods (fst (fst (view_summary py_int choice_in arg_in w))))"
proof -
  from view_summary_periods[of py_int choice_in arg_in w] show ?thesis
  proof
    assume "periods (fst (fst (view_summary py_int choice_in arg_in w))) = []"
    then show ?thesis by simp
  next
    assume "\<exists>tc outs s. time_loop tc (expenses w) [] = (outs, Completed s)
         \<and> periods (fst (fst (view_summary py_int choice_in arg_in w))) = map fst (sorted_items s)"
    then obtain tc outs s where t: "time_loop tc (expenses w) [] = (outs, Completed s)"
      and p: "periods (fst (fst (view_summary py_int choice_in arg_in w))) = map fst (sorted_items s)"
      by blast
    from time_loop_keys[OF t] have "distinct (map fst s)" by simp
    then have "distinct (map fst (sorted_items s))"
      unfolding sorted_items_def by (rule distinct_map_sort_key)
    moreover have "sorted (map fst (sorted_items s))" by (simp add: sorted_items_def)
    ultimately show ?thesis unfolding p by simp
  qed
qed

text \<open>
  Claim C4. The weekly summary of a ledger with 5 on 2024-01-08 (Monday of week 2) and 10
  on 2024-03-04 (Monday of week 10) prints the line of \<open>2024-W10\<close> before the line of
  \<open>2024-W2\<close>: the keys are in ascending order as strings, and that order is not the order
  of the weeks in time, the week number being written without padding.
\<close>

theorem weekly_order:
  "fst (view_summary [''3'' \<mapsto> 3] ''3'' ''3''
        \<lparr>expenses = [\<lparr>amount = PNum (5::int), category = PStr ''Food'', date = PStr ''2024-01-08''\<rparr>,
                      \<lparr>amount = PNum 10, category = PStr ''Rent'', date = PStr ''2024-03-04''\<rparr>],
         disk = NoFile, writes = 0\<rparr>)
     = ([SummaryHeader, PeriodLine ''2024-W10'' 10, PeriodLine ''2024-W2'' 5], None)
   \<and> ''2024-W10'' < ''2024-W2''
   \<and> isocalendar 2024 1 8 = (2024, 2, 1) \<and> isocalendar 2024 3 4 = (2024, 10, 1)
   \<and> ymd2ord 2024 1 8 < ymd2ord 2024 3 4"
  by code_simp

section \<open>The buckets and the overall total\<close>








text \<open>Sums of whole floats as Python computes them: \<open>1e16 + 1.0\<close> is \<open>1e16\<close>, a tie that goes
  to the even significand, as does \<open>10000000000000002.0 + 1.0\<close>, which is
  \<open>10000000000000004.0\<close>; below \<open>2 ** 53\<close> the sums of whole numbers are exact.\<close>

lemma round53_examples:
  "round53 (10000000000000000 + 1) = 10000000000000000"
  "round53 (10000000000000002 + 1) = 10000000000000004"
  "round53 (9007199254740991 + 1) = 9007199254740992"
  "round53 (- 9007199254740994 + - 1) = - 9007199254740996"
  "round53 (3 + 4) = 7"
  by code_simp+


end
